theory Spec2Isabelle
  imports Complex_Main "HOL-Library.Stream" "HOL-Library.AList" "HOL-Library.Sublist"
    "HOL-Library.Char_ord" "HOL-Library.List_Lexorder"
begin

section \<open>Exceptions\<close>

text \<open>
  The Python exceptions the modelled functions can raise. A function that may raise
  returns \<open>pyerror + 'a\<close>, with \<open>Inl\<close> for the exception.
\<close>

datatype pyerror =
  ValueError | TypeError | KeyError | OverflowError | BadSignatureError | MalformedPointError

section \<open>The curve group (encryption/pedersen\_commitment.py)\<close>

text \<open>
  \<^verbatim>\<open>curve = SECP256k1; G = curve.generator; n = curve.order\<close>

  The curve arithmetic comes from the ecdsa library. The group of secp256k1 is cyclic
  of prime order \<open>n\<close> and \<open>G\<close> generates it, so every point is \<open>k * G\<close> for exactly one
  \<open>k\<close> with \<open>0 \<le> k < n\<close> (the point at infinity is \<open>0 * G\<close>). A point is represented by
  that scalar: \<open>Point k\<close> stands for \<open>k * G\<close>. Scalar multiplication and point addition
  are then multiplication and addition modulo \<open>n\<close>, and equality of points is equality
  of the scalars.
\<close>

definition curve_order :: int where
  "curve_order = 115792089237316195423570985008687907852837564279074904382605163141518161494337"

datatype point = Point int

definition G :: point where
  "G = Point 1"

fun point_mul :: "point \<Rightarrow> int \<Rightarrow> point" where
  "point_mul (Point a) k = Point ((a * k) mod curve_order)"

fun point_add :: "point \<Rightarrow> point \<Rightarrow> point" where
  "point_add (Point a) (Point b) = Point ((a + b) mod curve_order)"

text \<open>
  \<^verbatim>\<open>secrets.randbelow(n)\<close>: the entropy source is state. It is a stream of raw draws;
  a call takes the next one, reduced into \<open>[0, n)\<close>, and leaves the rest.
\<close>

definition randbelow :: "int \<Rightarrow> int stream \<Rightarrow> int \<times> int stream" where
  "randbelow m s = (shd s mod m, stl s)"

definition generate_random :: "int stream \<Rightarrow> int \<times> int stream" where
  "generate_random s = randbelow curve_order s"

text \<open>
  \<^verbatim>\<open>
  def create_commitment(value, random_factor=None):
      random_factor = random_factor or generate_random()
      commitment = (G * value) + (G * random_factor)
      return commitment, random_factor
  \<close>
  \<open>random_factor\<close> is \<open>None\<close> when the argument is omitted. Python's \<open>or\<close> takes its
  right operand when the left one is falsy, and both \<open>None\<close> and \<open>0\<close> are falsy; the
  right operand is evaluated only then.
\<close>

definition create_commitment ::
  "int \<Rightarrow> int option \<Rightarrow> int stream \<Rightarrow> (point \<times> int) \<times> int stream" where
  "create_commitment val random_factor s =
     (let (r, s') = (case random_factor of
                       None \<Rightarrow> generate_random s
                     | Some x \<Rightarrow> if x = 0 then generate_random s else (x, s));
          commitment = point_add (point_mul G val) (point_mul G r)
      in ((commitment, r), s'))"

text \<open>
  \<^verbatim>\<open>
  def verify_commitment(commitment, value, random_factor):
      expected_commitment = (G * value) + (G * random_factor)
      return commitment == expected_commitment
  \<close>
\<close>

definition verify_commitment :: "point \<Rightarrow> int \<Rightarrow> int \<Rightarrow> bool" where
  "verify_commitment commitment val random_factor =
     (let expected_commitment = point_add (point_mul G val) (point_mul G random_factor)
      in commitment = expected_commitment)"

section \<open>Range proofs (verification/bulletproofs)\<close>

subsection \<open>String formatting of integers\<close>

text \<open>
  The f-strings of the source format integers in decimal, as \<^verbatim>\<open>str\<close> does: a minus sign
  for a negative number, no leading zeros.
\<close>

definition digit_char :: "nat \<Rightarrow> char" where
  "digit_char d = ''0123456789'' ! d"

fun str_nat :: "nat \<Rightarrow> string" where
  "str_nat n = (if n < 10 then [digit_char n] else str_nat (n div 10) @ [digit_char (n mod 10)])"

declare str_nat.simps [simp del]

definition str_int :: "int \<Rightarrow> string" where
  "str_int i = (if i < 0 then CHR ''-'' # str_nat (nat (- i)) else str_nat (nat i))"

subsection \<open>bulletproofs\_utils.py\<close>

text \<open>
  \<^verbatim>\<open>
  def compute_challenge(transcript: str, length: int = 256) -> int:
      hash_value = hashlib.sha256(transcript.encode()).digest()
      challenge = int.from_bytes(hash_value, "big") % (2 ** length)
      return challenge
  \<close>
  SHA-256 is the hashlib library's. It is the parameter \<open>sha256\<close>: the digest of a
  string, read as a big-endian integer.
\<close>

definition compute_challenge :: "(string \<Rightarrow> nat) \<Rightarrow> string \<Rightarrow> nat \<Rightarrow> int" where
  "compute_challenge sha256 transcript len = int (sha256 transcript) mod 2 ^ len"

text \<open>
  \<^verbatim>\<open>
  def validate_commitment_range(commitment: int, range_min: int, range_max: int) -> bool:
      return range_min <= commitment <= range_max
  \<close>
\<close>

definition validate_commitment_range :: "int \<Rightarrow> int \<Rightarrow> int \<Rightarrow> bool" where
  "validate_commitment_range commitment range_min range_max =
     (range_min \<le> commitment \<and> commitment \<le> range_max)"

subsection \<open>emulation.py\<close>

text \<open>
  A commitment handed to the range-proof functions is an integer in the emulation
  (``emulated commitment representing the transactions amount'') and a curve point
  when it comes from \<^verbatim>\<open>create_range_proof\<close>.
\<close>

datatype commitment = CInt int | CPoint point

text \<open>
  Modelled from the spec: \<^verbatim>\<open>check_range\<close> is imported by emulation.py from range\_proof.py,
  which does not define it. It is the interval test \<open>value \<in> [min, max]\<close> of the spec, the
  test \<^verbatim>\<open>validate_commitment_range\<close> makes, on the integer commitment.
\<close>

definition check_range :: "int \<Rightarrow> int \<Rightarrow> int \<Rightarrow> bool" where
  "check_range commitment range_min range_max =
     (range_min \<le> commitment \<and> commitment \<le> range_max)"

text \<open>
  \<^verbatim>\<open>
  def generate_bulletproof(commitment, range_min, range_max, simulate_correct=True):
      if not check_range(commitment, range_min, range_max):
          raise ValueError("Commitment is out of the specified range.")
      proof_status = "valid" if simulate_correct else "invalid"
      proof = compute_challenge(f"{commitment}-{range_min}-{range_max}-{proof_status}")
      return proof
  \<close>
  The \<^verbatim>\<open>ValueError\<close> is the out-of-range error. A curve point has no order relation with
  an integer: the comparison of the range test raises \<^verbatim>\<open>TypeError\<close> on it.
\<close>

fun emu_generate_bulletproof ::
  "(string \<Rightarrow> nat) \<Rightarrow> commitment \<Rightarrow> int \<Rightarrow> int \<Rightarrow> bool \<Rightarrow> pyerror + int" where
  "emu_generate_bulletproof sha256 (CInt c) range_min range_max simulate_correct =
     (if \<not> check_range c range_min range_max then Inl ValueError
      else let proof_status = (if simulate_correct then ''valid'' else ''invalid'')
           in Inr (compute_challenge sha256
                (str_int c @ ''-'' @ str_int range_min @ ''-'' @ str_int range_max
                   @ ''-'' @ proof_status) 256))"
| "emu_generate_bulletproof sha256 (CPoint p) range_min range_max simulate_correct =
     Inl TypeError"

text \<open>
  \<^verbatim>\<open>
  def verify_bulletproof(commitment, proof, range_min, range_max, expected_correct=True):
      correct_proof = generate_bulletproof(commitment, range_min, range_max,
                                           simulate_correct=expected_correct)
      return proof == correct_proof
  \<close>
\<close>

definition emu_verify_bulletproof ::
  "(string \<Rightarrow> nat) \<Rightarrow> commitment \<Rightarrow> int \<Rightarrow> int \<Rightarrow> int \<Rightarrow> bool \<Rightarrow> pyerror + bool" where
  "emu_verify_bulletproof sha256 commitment proof range_min range_max expected_correct =
     (case emu_generate_bulletproof sha256 commitment range_min range_max expected_correct of
        Inl e \<Rightarrow> Inl e
      | Inr correct_proof \<Rightarrow> Inr (proof = correct_proof))"

subsection \<open>bulletproofs\_core.py\<close>

text \<open>
  \<^verbatim>\<open>
  BULLETPROOF_IMPLEMENTATION = "emulation"

  def generate_bulletproof(commitment, range_min, range_max, **kwargs):
      if BULLETPROOF_IMPLEMENTATION == "dalek" and HAS_DALEK: ...
      elif BULLETPROOF_IMPLEMENTATION == "fastecdsa" and HAS_FASTECDSA: ...
      elif BULLETPROOF_IMPLEMENTATION == "emulation":
          return emu_generate_bulletproof(commitment, range_min, range_max, **kwargs)
      else:
          raise ValueError("Invalid or unsupported Bulletproof implementation selected.")
  \<close>
  The flag is the constant \<^verbatim>\<open>"emulation"\<close>, so the first two branches are never taken;
  they are left out. \<^verbatim>\<open>verify_bulletproof\<close> dispatches in the same way.
\<close>

definition BULLETPROOF_IMPLEMENTATION :: string where
  "BULLETPROOF_IMPLEMENTATION = ''emulation''"

definition generate_bulletproof ::
  "(string \<Rightarrow> nat) \<Rightarrow> commitment \<Rightarrow> int \<Rightarrow> int \<Rightarrow> pyerror + int" where
  "generate_bulletproof sha256 commitment range_min range_max =
     (if BULLETPROOF_IMPLEMENTATION = ''emulation''
      then emu_generate_bulletproof sha256 commitment range_min range_max True
      else Inl ValueError)"

definition verify_bulletproof ::
  "(string \<Rightarrow> nat) \<Rightarrow> commitment \<Rightarrow> int \<Rightarrow> int \<Rightarrow> int \<Rightarrow> pyerror + bool" where
  "verify_bulletproof sha256 commitment proof range_min range_max =
     (if BULLETPROOF_IMPLEMENTATION = ''emulation''
      then emu_verify_bulletproof sha256 commitment proof range_min range_max True
      else Inl ValueError)"

subsection \<open>range\_proof.py\<close>

text \<open>
  \<^verbatim>\<open>
  def create_range_proof(amount, g, h, range_min, range_max):
      blinding_factor = secrets.randbelow(secp256k1.q)
      commitment = (g * amount) + (h * blinding_factor)
      proof = generate_bulletproof(commitment, range_min, range_max)
      return commitment, proof

  def validate_range_proof(commitment, proof, range_min, range_max):
      return verify_bulletproof(commitment, proof, range_min, range_max)
  \<close>
  \<^verbatim>\<open>generate_bulletproof\<close> and \<^verbatim>\<open>verify_bulletproof\<close> are those of bulletproofs\_core.py.
  The entropy is consumed whether or not the proof generation raises.
\<close>

definition create_range_proof ::
  "(string \<Rightarrow> nat) \<Rightarrow> int \<Rightarrow> point \<Rightarrow> point \<Rightarrow> int \<Rightarrow> int \<Rightarrow> int stream
     \<Rightarrow> (pyerror + point \<times> int) \<times> int stream" where
  "create_range_proof sha256 amount g h range_min range_max s =
     (let (blinding_factor, s') = randbelow curve_order s;
          commitment = point_add (point_mul g amount) (point_mul h blinding_factor)
      in (case generate_bulletproof sha256 (CPoint commitment) range_min range_max of
            Inl e \<Rightarrow> Inl e
          | Inr proof \<Rightarrow> Inr (commitment, proof),
          s'))"

definition validate_range_proof ::
  "(string \<Rightarrow> nat) \<Rightarrow> commitment \<Rightarrow> int \<Rightarrow> int \<Rightarrow> int \<Rightarrow> pyerror + bool" where
  "validate_range_proof sha256 commitment proof range_min range_max =
     verify_bulletproof sha256 commitment proof range_min range_max"

section \<open>Signatures (encryption/signature.py)\<close>

type_synonym bytes = "nat list"

text \<open>
  \<^verbatim>\<open>bytes.fromhex(string)\<close>: two hexadecimal digits per byte; ASCII whitespace between
  bytes is skipped. Anything else raises \<^verbatim>\<open>ValueError\<close>.
\<close>

definition hexval :: "char \<Rightarrow> nat option" where
  "hexval c =
     (let k = (of_char c :: nat)
      in if 48 \<le> k \<and> k \<le> 57 then Some (k - 48)
         else if 97 \<le> k \<and> k \<le> 102 then Some (k - 87)
         else if 65 \<le> k \<and> k \<le> 70 then Some (k - 55)
         else None)"

definition is_space :: "char \<Rightarrow> bool" where
  "is_space c = ((of_char c :: nat) \<in> {9, 10, 11, 12, 13, 32})"

fun bytes_fromhex :: "string \<Rightarrow> pyerror + bytes" where
  "bytes_fromhex [] = Inr []"
| "bytes_fromhex [c] = (if is_space c then Inr [] else Inl ValueError)"
| "bytes_fromhex (c # d # cs) =
     (if is_space c then bytes_fromhex (d # cs)
      else case (hexval c, hexval d) of
             (Some hi, Some lo) \<Rightarrow>
               (case bytes_fromhex cs of
                  Inl e \<Rightarrow> Inl e
                | Inr bs \<Rightarrow> Inr ((16 * hi + lo) # bs))
           | _ \<Rightarrow> Inl ValueError)"

text \<open>
  \<^verbatim>\<open>
  def verify_signature(tx, public_key, signature):
      public_key_obj = VerifyingKey.from_string(bytes.fromhex(public_key), curve=SECP256k1)
      message = keccak(text=str(tx)).digest()
      try:
          return public_key_obj.verify(bytes.fromhex(signature), message)
      except BadSignatureError:
          return False
  \<close>
  The key parser, the message digest and the ECDSA verification are the libraries'
  (ecdsa, eth\_utils); they are the parameters \<open>from_string\<close>, \<open>message_digest\<close> and
  \<open>verify\<close>, each of which may raise. The arguments of \<^verbatim>\<open>verify\<close> are evaluated inside the
  \<^verbatim>\<open>try\<close>; its handler catches \<^verbatim>\<open>BadSignatureError\<close> and nothing else.
\<close>

definition except_BadSignatureError :: "pyerror + bool \<Rightarrow> pyerror + bool" where
  "except_BadSignatureError r =
     (case r of
        Inl e \<Rightarrow> if e = BadSignatureError then Inr False else Inl e
      | Inr b \<Rightarrow> Inr b)"

definition verify_signature ::
  "(bytes \<Rightarrow> pyerror + 'key) \<Rightarrow> ('tx \<Rightarrow> pyerror + bytes)
     \<Rightarrow> ('key \<Rightarrow> bytes \<Rightarrow> bytes \<Rightarrow> pyerror + bool)
     \<Rightarrow> 'tx \<Rightarrow> string \<Rightarrow> string \<Rightarrow> pyerror + bool" where
  "verify_signature from_string message_digest verify tx public_key signature =
     (case bytes_fromhex public_key of
        Inl e \<Rightarrow> Inl e
      | Inr key_bytes \<Rightarrow>
     (case from_string key_bytes of
        Inl e \<Rightarrow> Inl e
      | Inr public_key_obj \<Rightarrow>
     (case message_digest tx of
        Inl e \<Rightarrow> Inl e
      | Inr message \<Rightarrow>
          except_BadSignatureError
            (case bytes_fromhex signature of
               Inl e \<Rightarrow> Inl e
             | Inr signature_bytes \<Rightarrow> verify public_key_obj signature_bytes message))))"

section \<open>Python values and the key-value store\<close>

text \<open>
  The values that occur in transactions and notary records: integers, floats (each
  given as the real number it denotes), strings and dictionaries with string keys. A dictionary is an association
  list in insertion order, with distinct keys.
\<close>

datatype pyval = PInt int | PFloat real | PStr string | PDict "(string \<times> pyval) list"

type_synonym dict = "(string \<times> pyval) list"

text \<open>
  The \<^verbatim>\<open>+\<close> and \<^verbatim>\<open>-\<close> of Python on these values: numbers add and subtract (an integer
  and a float give a float), strings concatenate, everything else raises \<^verbatim>\<open>TypeError\<close>.
\<close>

fun py_add :: "pyval \<Rightarrow> pyval \<Rightarrow> pyerror + pyval" where
  "py_add (PInt a) (PInt b) = Inr (PInt (a + b))"
| "py_add (PInt a) (PFloat b) = Inr (PFloat (real_of_int a + b))"
| "py_add (PFloat a) (PInt b) = Inr (PFloat (a + real_of_int b))"
| "py_add (PFloat a) (PFloat b) = Inr (PFloat (a + b))"
| "py_add (PStr a) (PStr b) = Inr (PStr (a @ b))"
| "py_add _ _ = Inl TypeError"

fun py_sub :: "pyval \<Rightarrow> pyval \<Rightarrow> pyerror + pyval" where
  "py_sub (PInt a) (PInt b) = Inr (PInt (a - b))"
| "py_sub (PInt a) (PFloat b) = Inr (PFloat (real_of_int a - b))"
| "py_sub (PFloat a) (PInt b) = Inr (PFloat (a - real_of_int b))"
| "py_sub (PFloat a) (PFloat b) = Inr (PFloat (a - b))"
| "py_sub _ _ = Inl TypeError"

text \<open>
  A \<^verbatim>\<open>datetime\<close> is naive (no time zone) or aware (with a UTC offset). A naive one is
  its number of microseconds; an aware one, the number of microseconds of its
  instant in UTC.
\<close>

datatype datetime = Naive int | Aware int

text \<open>
  Library functions the data layer calls: \<^verbatim>\<open>json.dumps(obj, sort_keys=...)\<close>,
  \<^verbatim>\<open>hashlib.sha256(s.encode()).hexdigest()\<close>, the text \<^verbatim>\<open>str\<close> gives for a float or a
  dictionary, and \<^verbatim>\<open>datetime.fromisoformat\<close> on a string (a malformed string raises; a
  string with an offset gives an aware datetime). They are parameters, collected in
  one record.
\<close>

record pylib =
  json_dumps :: "bool \<Rightarrow> pyval \<Rightarrow> string"
  sha256_hexdigest :: "string \<Rightarrow> string"
  py_repr :: "pyval \<Rightarrow> string"
  fromisoformat :: "string \<Rightarrow> pyerror + datetime"

text \<open>How an f-string formats a value: a string as itself, an integer in decimal.\<close>

fun format_value :: "pylib \<Rightarrow> pyval \<Rightarrow> string" where
  "format_value L (PStr s) = s"
| "format_value L (PInt i) = str_int i"
| "format_value L v = py_repr L v"

text \<open>
  The LMDB environment. A cursor visits the entries in the order of their keys, so
  the environment is the list of its entries in that order. The values are JSON
  texts written with \<^verbatim>\<open>json.dumps\<close> and read with \<^verbatim>\<open>json.loads\<close>; the model keeps the
  document itself.
  \<^item> \<^verbatim>\<open>txn.put(key, value)\<close> stores the value under the key and replaces a value that
    is already there (\<^verbatim>\<open>overwrite=True\<close> is the default of the lmdb library);
  \<^item> \<^verbatim>\<open>txn.get(key)\<close> returns the value or \<^verbatim>\<open>None\<close>;
  \<^item> \<^verbatim>\<open>txn.delete(key)\<close> removes the entry and returns whether there was one.
\<close>

type_synonym lmdb = "(string \<times> dict) list"

fun db_put :: "string \<Rightarrow> dict \<Rightarrow> lmdb \<Rightarrow> lmdb" where
  "db_put k v [] = [(k, v)]"
| "db_put k v ((k', v') # rest) =
     (if k = k' then (k, v) # rest
      else if k < k' then (k, v) # (k', v') # rest
      else (k', v') # db_put k v rest)"

definition db_get :: "lmdb \<Rightarrow> string \<Rightarrow> dict option" where
  "db_get env k = map_of env k"

definition db_delete :: "string \<Rightarrow> lmdb \<Rightarrow> bool \<times> lmdb" where
  "db_delete k env = (map_of env k \<noteq> None, filter (\<lambda>(k', v). k' \<noteq> k) env)"

section \<open>The ledger (data/ledger\_db.py)\<close>

text \<open>
  \<^verbatim>\<open>
  def _generate_tx_id(self, tx):
      return sha256(json.dumps(tx, sort_keys=True).encode()).hexdigest()

  def save_transaction(self, tx):
      tx_id = self._generate_tx_id(tx)
      tx_key = f"{tx['TX_FAMILY']}_{tx_id}".encode()
      with self.env.begin(write=True) as txn:
          txn.put(tx_key, json.dumps(tx).encode())
  \<close>
  \<^verbatim>\<open>tx['TX_FAMILY']\<close> raises \<^verbatim>\<open>KeyError\<close> when the key is missing; nothing is written
  then. The function returns nothing: the result is the environment after the write.
\<close>

definition generate_tx_id :: "pylib \<Rightarrow> dict \<Rightarrow> string" where
  "generate_tx_id L tx = sha256_hexdigest L (json_dumps L True (PDict tx))"

definition save_transaction :: "pylib \<Rightarrow> lmdb \<Rightarrow> dict \<Rightarrow> pyerror + lmdb" where
  "save_transaction L env tx =
     (let tx_id = generate_tx_id L tx
      in case map_of tx ''TX_FAMILY'' of
           None \<Rightarrow> Inl KeyError
         | Some family \<Rightarrow> Inr (db_put (format_value L family @ ''_'' @ tx_id) tx env))"

text \<open>
  \<^verbatim>\<open>
  def get_transaction(self, tx_id, tx_family):
      tx_key = f"{tx_family}_{tx_id}".encode()
      with self.env.begin(write=False) as txn:
          tx_data = txn.get(tx_key)
          if tx_data:
              return json.loads(tx_data.decode())
          return None
  \<close>
  The identifier and the family are strings. A stored JSON text is never empty.
\<close>

definition get_transaction :: "lmdb \<Rightarrow> string \<Rightarrow> string \<Rightarrow> dict option" where
  "get_transaction env tx_id tx_family = db_get env (tx_family @ ''_'' @ tx_id)"

text \<open>
  \<^verbatim>\<open>
  def get_balance(self, address, tx_family="financial_tx"):
      balance = 0
      with self.env.begin(write=False) as txn:
          cursor = txn.cursor()
          for key, value in cursor:
              if key.startswith(f"{tx_family}_".encode()):
                  tx = json.loads(value.decode())
                  if tx['recipient'] == address:
                      balance += tx['amount']
                  elif tx['sender'] == address:
                      balance -= tx['amount']
      return balance
  \<close>
  The address is a string: a field equals it when it is that string. The loop is a
  recursion over the entries, with the balance so far as accumulator.
\<close>

fun balance_loop :: "string \<Rightarrow> string \<Rightarrow> lmdb \<Rightarrow> pyval \<Rightarrow> pyerror + pyval" where
  "balance_loop address tx_family [] balance = Inr balance"
| "balance_loop address tx_family ((key, tx) # rest) balance =
     (if prefix (tx_family @ ''_'') key then
        (case map_of tx ''recipient'' of
           None \<Rightarrow> Inl KeyError
         | Some recipient \<Rightarrow>
             if recipient = PStr address then
               (case map_of tx ''amount'' of
                  None \<Rightarrow> Inl KeyError
                | Some amount \<Rightarrow>
                    (case py_add balance amount of
                       Inl e \<Rightarrow> Inl e
                     | Inr balance' \<Rightarrow> balance_loop address tx_family rest balance'))
             else
               (case map_of tx ''sender'' of
                  None \<Rightarrow> Inl KeyError
                | Some sender \<Rightarrow>
                    if sender = PStr address then
                      (case map_of tx ''amount'' of
                         None \<Rightarrow> Inl KeyError
                       | Some amount \<Rightarrow>
                           (case py_sub balance amount of
                              Inl e \<Rightarrow> Inl e
                            | Inr balance' \<Rightarrow> balance_loop address tx_family rest balance'))
                    else balance_loop address tx_family rest balance))
      else balance_loop address tx_family rest balance)"

definition get_balance :: "lmdb \<Rightarrow> string \<Rightarrow> string \<Rightarrow> pyerror + pyval" where
  "get_balance env address tx_family = balance_loop address tx_family env (PInt 0)"

section \<open>The notary store (data/notary\_db.py)\<close>

text \<open>
  \<^verbatim>\<open>datetime.fromisoformat(v)\<close> raises \<^verbatim>\<open>TypeError\<close> when \<open>v\<close> is not a string; on a string
  it is the library's parser.
\<close>

definition datetime_fromisoformat :: "pylib \<Rightarrow> pyval \<Rightarrow> pyerror + datetime" where
  "datetime_fromisoformat L v = (case v of PStr s \<Rightarrow> fromisoformat L s | _ \<Rightarrow> Inl TypeError)"

text \<open>
  \<^verbatim>\<open>datetime.utcnow() > expiration_time\<close>. \<^verbatim>\<open>datetime.utcnow()\<close> is naive; it is the
  argument \<open>now\<close> of the functions that read the clock. Python compares two naive
  datetimes and raises \<^verbatim>\<open>TypeError\<close> when one is naive and the other aware.
\<close>

definition utcnow_after :: "int \<Rightarrow> datetime \<Rightarrow> pyerror + bool" where
  "utcnow_after now expiration_time =
     (case expiration_time of Naive t \<Rightarrow> Inr (now > t) | Aware t \<Rightarrow> Inl TypeError)"

text \<open>
  \<^verbatim>\<open>
  def delete_notary_record(self, record_id):
      record_key = f"notary_{record_id}".encode()
      with self.env.begin(write=True) as txn:
          return txn.delete(record_key)
  \<close>
\<close>

definition delete_notary_record :: "lmdb \<Rightarrow> string \<Rightarrow> bool \<times> lmdb" where
  "delete_notary_record env record_id = db_delete (''notary_'' @ record_id) env"

text \<open>
  \<^verbatim>\<open>
  def get_notary_record(self, record_id):
      record_key = f"notary_{record_id}".encode()
      with self.env.begin(write=False) as txn:
          record_data = txn.get(record_key)
          if record_data:
              record = json.loads(record_data.decode())
              if "expires_at" in record:
                  expiration_time = datetime.fromisoformat(record["expires_at"])
                  if datetime.utcnow() > expiration_time:
                      self.delete_notary_record(record_id)
                      return None
              return record
          return None
  \<close>
  The result is the record (or \<open>None\<close>) and the environment after the call. An
  exception leaves the environment as it was.
\<close>

definition get_notary_record ::
  "pylib \<Rightarrow> lmdb \<Rightarrow> int \<Rightarrow> string \<Rightarrow> pyerror + (dict option \<times> lmdb)" where
  "get_notary_record L env now record_id =
     (case db_get env (''notary_'' @ record_id) of
        None \<Rightarrow> Inr (None, env)
      | Some record \<Rightarrow>
          (case map_of record ''expires_at'' of
             None \<Rightarrow> Inr (Some record, env)
           | Some expires_at \<Rightarrow>
               (case datetime_fromisoformat L expires_at of
                  Inl e \<Rightarrow> Inl e
                | Inr expiration_time \<Rightarrow>
                    (case utcnow_after now expiration_time of
                       Inl e \<Rightarrow> Inl e
                     | Inr past \<Rightarrow>
                         if past
                         then Inr (None, snd (delete_notary_record env record_id))
                         else Inr (Some record, env)))))"

text \<open>
  \<^verbatim>\<open>
  def list_notary_records(self, include_expired=False):
      records = []
      with self.env.begin(write=False) as txn:
          cursor = txn.cursor()
          for key, value in cursor:
              if key.startswith(b"notary_"):
                  record = json.loads(value.decode())
                  if "expires_at" in record and not include_expired:
                      expiration_time = datetime.fromisoformat(record["expires_at"])
                      if datetime.utcnow() > expiration_time:
                          continue
                  records.append(record)
      return records
  \<close>
\<close>

fun list_loop :: "pylib \<Rightarrow> int \<Rightarrow> bool \<Rightarrow> lmdb \<Rightarrow> dict list \<Rightarrow> pyerror + dict list" where
  "list_loop L now include_expired [] records = Inr records"
| "list_loop L now include_expired ((key, record) # rest) records =
     (if prefix ''notary_'' key then
        (case (if include_expired then None else map_of record ''expires_at'') of
           None \<Rightarrow> list_loop L now include_expired rest (records @ [record])
         | Some expires_at \<Rightarrow>
             (case datetime_fromisoformat L expires_at of
                Inl e \<Rightarrow> Inl e
              | Inr expiration_time \<Rightarrow>
                  (case utcnow_after now expiration_time of
                     Inl e \<Rightarrow> Inl e
                   | Inr past \<Rightarrow>
                       if past
                       then list_loop L now include_expired rest records
                       else list_loop L now include_expired rest (records @ [record]))))
      else list_loop L now include_expired rest records)"

definition list_notary_records :: "pylib \<Rightarrow> lmdb \<Rightarrow> int \<Rightarrow> bool \<Rightarrow> pyerror + dict list" where
  "list_notary_records L env now include_expired = list_loop L now include_expired env []"




section \<open>The transaction emulator (transactions/transaction\_emulator.py)\<close>

text \<open>
  \<^verbatim>\<open>
  class TransactionEmulator:
      def __init__(self):
          self.ledger_storage = {}
          self.notary_storage = {}
          self.cancellation_window = 120  # seconds
  \<close>
  The anchoring and the cancellation use the notary storage and the window. The
  storage is a dictionary from transaction identifiers to transactions. A dictionary
  cannot be a key (it is not hashable, \<^verbatim>\<open>TypeError\<close>), and keys that are equal are one
  key: the integer 7 and the float 7.0 address the same entry. \<open>dict_key\<close> gives the
  representative of a key.
\<close>

record emulator =
  notary_storage :: "pyval \<rightharpoonup> dict"
  cancellation_window :: real

definition init_emulator :: emulator where
  "init_emulator = \<lparr>notary_storage = Map.empty, cancellation_window = 120\<rparr>"

definition hashable :: "pyval \<Rightarrow> bool" where
  "hashable v = (case v of PDict d \<Rightarrow> False | _ \<Rightarrow> True)"

definition dict_key :: "pyval \<Rightarrow> pyval" where
  "dict_key v =
     (case v of
        PFloat r \<Rightarrow> if r = real_of_int \<lfloor>r\<rfloor> then PInt \<lfloor>r\<rfloor> else PFloat r
      | _ \<Rightarrow> v)"

text \<open>
  \<^verbatim>\<open>time.time()\<close> is the argument \<open>now\<close>: a double, given as the real number it denotes.
  \<^verbatim>\<open>
  def anchor_transaction(self, tx):
      tx_id = tx["tx_id"]
      tx["anchored"] = time.time()
      self.notary_storage[tx_id] = tx
      return f"Transaction {tx_id} anchored in notary storage."
  \<close>
  The result is the emulator after the call; the confirmation message is left out.
\<close>

definition anchor_transaction :: "emulator \<Rightarrow> real \<Rightarrow> dict \<Rightarrow> pyerror + emulator" where
  "anchor_transaction st now tx =
     (case map_of tx ''tx_id'' of
        None \<Rightarrow> Inl KeyError
      | Some tx_id \<Rightarrow>
          (let tx' = AList.update ''anchored'' (PFloat now) tx
           in if \<not> hashable tx_id then Inl TypeError
              else Inr (st\<lparr>notary_storage := (notary_storage st)(dict_key tx_id \<mapsto> tx')\<rparr>)))"

text \<open>
  \<^verbatim>\<open>time.time() - tx["anchored"]\<close> is a subtraction of doubles: its result is the exact
  difference rounded to the nearest double. The rounding is the parameter \<open>fl\<close>. An
  integer operand is converted to a double first, which raises \<^verbatim>\<open>OverflowError\<close> when
  it is too large; a string or a dictionary raises \<^verbatim>\<open>TypeError\<close>.
\<close>

definition float_sub :: "(real \<Rightarrow> real) \<Rightarrow> real \<Rightarrow> pyval \<Rightarrow> pyerror + real" where
  "float_sub fl a v =
     (case v of
        PFloat b \<Rightarrow> Inr (fl (a - b))
      | PInt i \<Rightarrow>
          if \<bar>i\<bar> \<ge> 2 ^ 1024 - 2 ^ 970 then Inl OverflowError
          else Inr (fl (a - fl (real_of_int i)))
      | _ \<Rightarrow> Inl TypeError)"

text \<open>
  \<^verbatim>\<open>
  def cancel_transaction(self, tx_id):
      tx = self.notary_storage.get(tx_id)
      if not tx or time.time() - tx["anchored"] > self.cancellation_window:
          return False  # Cannot cancel outside of window or if not found
      del self.notary_storage[tx_id]
      return True
  \<close>
  \<^verbatim>\<open>not tx\<close> holds for \<open>None\<close> and for the empty dictionary. The result is the boolean
  returned and the emulator after the call.
\<close>

definition cancel_transaction ::
  "(real \<Rightarrow> real) \<Rightarrow> emulator \<Rightarrow> real \<Rightarrow> pyval \<Rightarrow> pyerror + (bool \<times> emulator)" where
  "cancel_transaction fl st now tx_id =
     (if \<not> hashable tx_id then Inl TypeError
      else case notary_storage st (dict_key tx_id) of
             None \<Rightarrow> Inr (False, st)
           | Some tx \<Rightarrow>
               if tx = [] then Inr (False, st)
               else (case map_of tx ''anchored'' of
                       None \<Rightarrow> Inl KeyError
                     | Some anchored \<Rightarrow>
                         (case float_sub fl now anchored of
                            Inl e \<Rightarrow> Inl e
                          | Inr elapsed \<Rightarrow>
                              if elapsed > cancellation_window st then Inr (False, st)
                              else Inr (True,
                                     st\<lparr>notary_storage :=
                                          (notary_storage st)(dict_key tx_id := None)\<rparr>))))"

text \<open>
  transactions/transaction\_flow.py:
  \<^verbatim>\<open>
  def cancel_transaction(self, tx_id):
      return self.anchor.cancel_anchor(tx_id)
  \<close>
  \<^verbatim>\<open>self.anchor\<close> is a \<^verbatim>\<open>TransactionAnchor\<close>, a class the repository does not define
  (transaction\_anchor.py holds the verification functions). Its method is the
  parameter \<open>cancel_anchor\<close>.
\<close>

definition flow_cancel_transaction :: "('anchor \<Rightarrow> 'id \<Rightarrow> 'r) \<Rightarrow> 'anchor \<Rightarrow> 'id \<Rightarrow> 'r" where
  "flow_cancel_transaction cancel_anchor anchor tx_id = cancel_anchor anchor tx_id"

section \<open>Compliance screening (verification/psi\_protocol.py, compliance\_verification.py)\<close>

subsection \<open>The PSI scheme\<close>

text \<open>
  \<^verbatim>\<open>PSIScheme.__init__\<close> accepts the scheme types \<^verbatim>\<open>"paillier"\<close> and \<^verbatim>\<open>"schnorr"\<close> and
  raises \<^verbatim>\<open>ValueError\<close> for any other string, so a scheme has one of the two types.
  The cryptography is the libraries' (phe, ecdsa), with the keys the scheme generated:
  \<^item> \<open>paillier_encrypt\<close>: \<^verbatim>\<open>self.paillier_keypair[0].encrypt(item)\<close>;
  \<^item> \<open>py_equals\<close>: the \<^verbatim>\<open>==\<close> that \<^verbatim>\<open>item in reference_set\<close> applies to an item and a
    member of the reference set;
  \<^item> \<open>schnorr_sign\<close>: \<^verbatim>\<open>schnorr_sign(message, self.schnorr_private_key)\<close>;
  \<^item> \<open>schnorr_verify\<close>: \<^verbatim>\<open>ref_r, ref_s = ref\<close> followed by
    \<^verbatim>\<open>schnorr_verify(message, ref_r, ref_s, self.schnorr_public_key)\<close>.
  Each may raise. \<open>'c\<close> is the type of the encrypted items.
\<close>

datatype scheme_type = Paillier | Schnorr

record 'c psi_lib =
  paillier_encrypt :: "pyval \<Rightarrow> pyerror + 'c"
  py_equals :: "pyval \<Rightarrow> 'c \<Rightarrow> bool"
  schnorr_sign :: "string \<Rightarrow> pyerror + 'c"
  schnorr_verify :: "string \<Rightarrow> 'c \<Rightarrow> pyerror + bool"

text \<open>A list comprehension whose element expression may raise stops at the first exception.\<close>

fun map_raising :: "('a \<Rightarrow> pyerror + 'b) \<Rightarrow> 'a list \<Rightarrow> pyerror + 'b list" where
  "map_raising f [] = Inr []"
| "map_raising f (x # xs) =
     (case f x of
        Inl e \<Rightarrow> Inl e
      | Inr y \<Rightarrow> (case map_raising f xs of Inl e \<Rightarrow> Inl e | Inr ys \<Rightarrow> Inr (y # ys)))"

fun filter_raising :: "('a \<Rightarrow> pyerror + bool) \<Rightarrow> 'a list \<Rightarrow> pyerror + 'a list" where
  "filter_raising p [] = Inr []"
| "filter_raising p (x # xs) =
     (case p x of
        Inl e \<Rightarrow> Inl e
      | Inr b \<Rightarrow>
          (case filter_raising p xs of
             Inl e \<Rightarrow> Inl e
           | Inr ys \<Rightarrow> Inr (if b then x # ys else ys)))"

text \<open>
  \<^verbatim>\<open>
  def encrypt_set(self, data_set):
      if self.scheme_type == "paillier":
          return [self.paillier_keypair[0].encrypt(item) for item in data_set]
      elif self.scheme_type == "schnorr":
          return [schnorr_sign(str(item), self.schnorr_private_key) for item in data_set]
  \<close>
\<close>

definition encrypt_set ::
  "'c psi_lib \<Rightarrow> pylib \<Rightarrow> scheme_type \<Rightarrow> pyval list \<Rightarrow> pyerror + 'c list" where
  "encrypt_set P L scheme data_set =
     (case scheme of
        Paillier \<Rightarrow> map_raising (paillier_encrypt P) data_set
      | Schnorr \<Rightarrow> map_raising (\<lambda>item. schnorr_sign P (format_value L item)) data_set)"

text \<open>
  \<^verbatim>\<open>
  def verify_item(self, item, reference_set):
      r, s = item
      for ref in reference_set:
          ref_r, ref_s = ref
          if schnorr_verify(str(r), ref_r, ref_s, self.schnorr_public_key):
              return True
      return False
  \<close>
  \<^verbatim>\<open>r, s = item\<close> unpacks a string of two characters into its characters and a
  dictionary of two keys into its keys; a string or dictionary of another length
  raises \<^verbatim>\<open>ValueError\<close>, a number \<^verbatim>\<open>TypeError\<close>.
\<close>

fun unpack2 :: "pyval \<Rightarrow> pyerror + pyval \<times> pyval" where
  "unpack2 (PStr [a, b]) = Inr (PStr [a], PStr [b])"
| "unpack2 (PStr s) = Inl ValueError"
| "unpack2 (PDict [(k1, v1), (k2, v2)]) = Inr (PStr k1, PStr k2)"
| "unpack2 (PDict d) = Inl ValueError"
| "unpack2 v = Inl TypeError"

fun verify_loop :: "'c psi_lib \<Rightarrow> string \<Rightarrow> 'c list \<Rightarrow> pyerror + bool" where
  "verify_loop P message [] = Inr False"
| "verify_loop P message (ref # reference_set) =
     (case schnorr_verify P message ref of
        Inl e \<Rightarrow> Inl e
      | Inr ok \<Rightarrow> if ok then Inr True else verify_loop P message reference_set)"

definition verify_item :: "'c psi_lib \<Rightarrow> pylib \<Rightarrow> pyval \<Rightarrow> 'c list \<Rightarrow> pyerror + bool" where
  "verify_item P L item reference_set =
     (case unpack2 item of
        Inl e \<Rightarrow> Inl e
      | Inr (r, s) \<Rightarrow> verify_loop P (format_value L r) reference_set)"

text \<open>
  \<^verbatim>\<open>
  def compute_intersection(self, encrypted_set, reference_set):
      if self.scheme_type == "paillier":
          return [item for item in encrypted_set if item in reference_set]
      elif self.scheme_type == "schnorr":
          return [item for item in encrypted_set if self.verify_item(item, reference_set)]
  \<close>
\<close>

definition compute_intersection ::
  "'c psi_lib \<Rightarrow> pylib \<Rightarrow> scheme_type \<Rightarrow> pyval list \<Rightarrow> 'c list \<Rightarrow> pyerror + pyval list" where
  "compute_intersection P L scheme encrypted_set reference_set =
     (case scheme of
        Paillier \<Rightarrow> Inr (filter (\<lambda>item. list_ex (py_equals P item) reference_set) encrypted_set)
      | Schnorr \<Rightarrow> filter_raising (\<lambda>item. verify_item P L item reference_set) encrypted_set)"

subsection \<open>The compliance check\<close>

text \<open>
  \<^verbatim>\<open>COMPLIANCE_LEVEL_BASIC = 1\<close> and \<^verbatim>\<open>COMPLIANCE_LEVEL_ADVANCED = 2\<close>
  (verification\_constants.py).
\<close>

definition COMPLIANCE_LEVEL_BASIC :: int where
  "COMPLIANCE_LEVEL_BASIC = 1"

definition COMPLIANCE_LEVEL_ADVANCED :: int where
  "COMPLIANCE_LEVEL_ADVANCED = 2"

record compliance_verification =
  scheme :: scheme_type
  compliance_level :: int

text \<open>
  \<^verbatim>\<open>load_blacklist\<close> and \<^verbatim>\<open>load_whitelist\<close> read every value of the list's database:
  \<^verbatim>\<open>[json.loads(value.decode()) for key, value in cursor]\<close>. The database is the list
  of its entries.
\<close>

definition load_list :: "(string \<times> pyval) list \<Rightarrow> pyval list" where
  "load_list db = map snd db"

text \<open>
  \<^verbatim>\<open>
  def check_compliance(self, address_set):
      blacklist = self.psi_scheme.encrypt_set(self.load_blacklist())
      whitelist = self.psi_scheme.encrypt_set(self.load_whitelist())
      blacklist_matches = self.psi_scheme.compute_intersection(address_set, blacklist)
      whitelist_matches = self.psi_scheme.compute_intersection(address_set, whitelist)
      compliance_report = {
          "blacklist_matches": blacklist_matches,
          "whitelist_matches": whitelist_matches,
          "compliance_status": "Compliant" if not blacklist_matches else "Non-compliant"
      }
      if self.compliance_level == COMPLIANCE_LEVEL_ADVANCED:
          compliance_report["details"] = "Advanced verification includes additional checks."
      return compliance_report
  \<close>
\<close>

record compliance_report =
  blacklist_matches :: "pyval list"
  whitelist_matches :: "pyval list"
  compliance_status :: string
  details :: "string option"

definition check_compliance ::
  "'c psi_lib \<Rightarrow> pylib \<Rightarrow> compliance_verification \<Rightarrow> (string \<times> pyval) list
     \<Rightarrow> (string \<times> pyval) list \<Rightarrow> pyval list \<Rightarrow> pyerror + compliance_report" where
  "check_compliance P L cv blacklist_db whitelist_db address_set =
     (case encrypt_set P L (scheme cv) (load_list blacklist_db) of
        Inl e \<Rightarrow> Inl e
      | Inr blacklist \<Rightarrow>
     (case encrypt_set P L (scheme cv) (load_list whitelist_db) of
        Inl e \<Rightarrow> Inl e
      | Inr whitelist \<Rightarrow>
     (case compute_intersection P L (scheme cv) address_set blacklist of
        Inl e \<Rightarrow> Inl e
      | Inr black_matches \<Rightarrow>
     (case compute_intersection P L (scheme cv) address_set whitelist of
        Inl e \<Rightarrow> Inl e
      | Inr white_matches \<Rightarrow>
          Inr \<lparr>blacklist_matches = black_matches,
               whitelist_matches = white_matches,
               compliance_status =
                 (if black_matches = [] then ''Compliant'' else ''Non-compliant''),
               details =
                 (if compliance_level cv = COMPLIANCE_LEVEL_ADVANCED
                  then Some ''Advanced verification includes additional checks.''
                  else None)\<rparr>))))"

text \<open>
  \<^verbatim>\<open>
  def verify_transaction(self, tx):
      address_set = [tx["sender"], tx["recipient"]]
      compliance_report = self.check_compliance(address_set)
      return compliance_report["compliance_status"] == "Compliant"
  \<close>
\<close>

definition verify_transaction ::
  "'c psi_lib \<Rightarrow> pylib \<Rightarrow> compliance_verification \<Rightarrow> (string \<times> pyval) list
     \<Rightarrow> (string \<times> pyval) list \<Rightarrow> dict \<Rightarrow> pyerror + bool" where
  "verify_transaction P L cv blacklist_db whitelist_db tx =
     (case map_of tx ''sender'' of
        None \<Rightarrow> Inl KeyError
      | Some sender \<Rightarrow>
     (case map_of tx ''recipient'' of
        None \<Rightarrow> Inl KeyError
      | Some recipient \<Rightarrow>
     (case check_compliance P L cv blacklist_db whitelist_db [sender, recipient] of
        Inl e \<Rightarrow> Inl e
      | Inr report \<Rightarrow> Inr (compliance_status report = ''Compliant''))))"

section \<open>The transaction flow (transactions/transaction\_flow.py)\<close>

text \<open>
  \<^verbatim>\<open>
  def create_and_encrypt_transaction(self, tx_family, sender, recipient, amount,
                                     private_key, anchor=True):
      header = {"sender": sender, "recipient": recipient,
                "timestamp": time.strftime("%Y-%m-%dT%H:%M:%SZ", time.gmtime()),
                "amount": amount}
      tx_id = sha256(json.dumps(header, sort_keys=True).encode()).hexdigest()
      encrypted_amount = encrypt_transaction_amount(amount, recipient)
      commitment = create_pedersen_commitment(amount, private_key)
      body = {"tx_id": tx_id, "header": header, "encrypted_amount": encrypted_amount,
              "commitment": commitment, "tx_family": tx_family}
      signature = sign_transaction(body, private_key)
      body["signature"] = signature
      self.ledger_db.save_transaction(body)
      if anchor:
          self.anchor.anchor_transaction(body)
      return body
  \<close>
  \<^verbatim>\<open>encrypt_transaction_amount\<close>, \<^verbatim>\<open>create_pedersen_commitment\<close> and the class of
  \<^verbatim>\<open>self.anchor\<close> are imported from modules that do not define them, and
  \<^verbatim>\<open>sign_transaction\<close> is the ecdsa library's signature: the four are parameters, each
  of which may raise. The timestamp is the argument \<open>timestamp\<close>. The result is the
  body and the ledger after the call.
\<close>

record flow_lib =
  encrypt_transaction_amount :: "int \<Rightarrow> string \<Rightarrow> pyerror + pyval"
  create_pedersen_commitment :: "int \<Rightarrow> string \<Rightarrow> pyerror + pyval"
  sign_transaction :: "dict \<Rightarrow> string \<Rightarrow> pyerror + string"
  anchor_body :: "dict \<Rightarrow> pyerror + unit"

definition create_and_encrypt_transaction ::
  "flow_lib \<Rightarrow> pylib \<Rightarrow> lmdb \<Rightarrow> string \<Rightarrow> string \<Rightarrow> string \<Rightarrow> string \<Rightarrow> int \<Rightarrow> string
     \<Rightarrow> bool \<Rightarrow> pyerror + (dict \<times> lmdb)" where
  "create_and_encrypt_transaction F L ledger timestamp tx_family sender recipient amount
       private_key anchor =
     (let header = [(''sender'', PStr sender), (''recipient'', PStr recipient),
                    (''timestamp'', PStr timestamp), (''amount'', PInt amount)];
          tx_id = sha256_hexdigest L (json_dumps L True (PDict header))
      in case encrypt_transaction_amount F amount recipient of
           Inl e \<Rightarrow> Inl e
         | Inr encrypted_amount \<Rightarrow>
        (case create_pedersen_commitment F amount private_key of
           Inl e \<Rightarrow> Inl e
         | Inr commitment \<Rightarrow>
        (let body = [(''tx_id'', PStr tx_id), (''header'', PDict header),
                     (''encrypted_amount'', encrypted_amount), (''commitment'', commitment),
                     (''tx_family'', PStr tx_family)]
         in case sign_transaction F body private_key of
              Inl e \<Rightarrow> Inl e
            | Inr signature \<Rightarrow>
           (let body' = AList.update ''signature'' (PStr signature) body
            in case save_transaction L ledger body' of
                 Inl e \<Rightarrow> Inl e
               | Inr ledger' \<Rightarrow>
                   if anchor
                   then (case anchor_body F body' of
                           Inl e \<Rightarrow> Inl e
                         | Inr u \<Rightarrow> Inr (body', ledger'))
                   else Inr (body', ledger')))))"

section \<open>Properties of the commitments\<close>

lemma curve_order_pos: "0 < curve_order"
  by (simp add: curve_order_def)

lemma commit_scalar:
  "point_add (point_mul G v) (point_mul G r) = Point ((v + r) mod curve_order)"
  by (simp add: G_def mod_add_eq)

lemma verify_commitment_iff:
  "verify_commitment (fst (fst (create_commitment v (Some b) s))) v' b' \<longleftrightarrow>
     (v' + b') mod curve_order =
     (v + (if b = 0 then shd s mod curve_order else b)) mod curve_order"
  by (auto simp: verify_commitment_def create_commitment_def generate_random_def
      randbelow_def commit_scalar Let_def)

text \<open>
  C1. The commitment is computed as \<open>G * value + G * random_factor\<close>: the generator
  \<open>G\<close> is used for both terms, there is no second generator \<open>H\<close>. The commitment
  therefore depends on \<open>value + random_factor\<close> only, and an opening with a different
  value is accepted: the commitment to value 5 with blinding 7 verifies for value 6
  with blinding 6.
\<close>

theorem verify_commitment_accepts_other_value:
  "verify_commitment (fst (fst (create_commitment 5 (Some 7) s))) 6 6 = True"
  by (simp add: verify_commitment_def create_commitment_def commit_scalar)

text \<open>
  C10. A supplied blinding factor 0 is treated like an omitted one: the call with
  \<open>random_factor = 0\<close> gives what the call without it gives, the returned blinding is
  the fresh draw from the entropy source (which is advanced), and unless that draw is
  0 the returned commitment does not open at \<open>(value, 0)\<close>. A supplied nonzero blinding
  is returned unchanged and draws nothing.
\<close>

theorem create_commitment_zero_blinding:
  "create_commitment v (Some 0) s = create_commitment v None s
   \<and> snd (fst (create_commitment v (Some 0) s)) = shd s mod curve_order
   \<and> snd (create_commitment v (Some 0) s) = stl s
   \<and> (shd s mod curve_order \<noteq> 0 \<longrightarrow>
        \<not> verify_commitment (fst (fst (create_commitment v (Some 0) s))) v 0)
   \<and> (x \<noteq> 0 \<longrightarrow> snd (fst (create_commitment v (Some x) s)) = x
                \<and> snd (create_commitment v (Some x) s) = s)"
proof -
  let ?r = "shd s mod curve_order"
  have "(v + ?r) mod curve_order = v mod curve_order \<longleftrightarrow> curve_order dvd (v + ?r) - v"
    by (rule mod_eq_dvd_iff)
  also have "\<dots> \<longleftrightarrow> ?r mod curve_order = 0"
    by (simp add: dvd_eq_mod_eq_0)
  finally have reopen: "(v + ?r) mod curve_order = v mod curve_order \<longleftrightarrow> ?r = 0"
    by simp
  have "?r \<noteq> 0 \<Longrightarrow>
        \<not> verify_commitment (fst (fst (create_commitment v (Some 0) s))) v 0"
    by (simp add: verify_commitment_def create_commitment_def generate_random_def
        randbelow_def commit_scalar reopen)
  then show ?thesis
    by (simp add: create_commitment_def generate_random_def randbelow_def)
qed

theorem create_commitment_zero_blinding_witness:
  "create_commitment 100 (Some 0) (sconst 9) = create_commitment 100 None (sconst 9)
   \<and> snd (fst (create_commitment 100 (Some 0) (sconst 9))) = 9
   \<and> snd (create_commitment 100 (Some 0) (sconst 9)) = stl (sconst 9)
   \<and> \<not> verify_commitment (fst (fst (create_commitment 100 (Some 0) (sconst 9)))) 100 0
   \<and> snd (fst (create_commitment 100 (Some 3) (sconst 9))) = 3
   \<and> snd (create_commitment 100 (Some 3) (sconst 9)) = sconst 9"
proof -
  have r: "shd (sconst 9) mod curve_order = (9::int)"
    by (simp add: curve_order_def)
  have nz: "(9::int) \<noteq> 0" "(3::int) \<noteq> 0"
    by simp_all
  note T = create_commitment_zero_blinding [of 100 "sconst 9" 3]
  show ?thesis
    using T nz unfolding r by blast
qed

section \<open>Properties of the range proofs\<close>

lemma str_int_100: "str_int 100 = ''100''"
  by (simp add: str_int_def str_nat.simps digit_char_def)

lemma str_int_0: "str_int 0 = ''0''"
  by (simp add: str_int_def str_nat.simps digit_char_def)

lemma str_int_99: "str_int 99 = ''99''"
  by (simp add: str_int_def str_nat.simps digit_char_def)

lemma emu_generate_bulletproof_out_of_range:
  "emu_generate_bulletproof sha256 (CInt c) range_min range_max simulate_correct = Inl ValueError
     \<longleftrightarrow> \<not> (range_min \<le> c \<and> c \<le> range_max)"
  by (simp add: check_range_def Let_def)

lemma generate_bulletproof_out_of_range:
  "c < range_min \<or> range_max < c \<Longrightarrow>
     generate_bulletproof sha256 (CInt c) range_min range_max = Inl ValueError"
  by (auto simp: generate_bulletproof_def BULLETPROOF_IMPLEMENTATION_def check_range_def)

lemma create_range_proof_ignores_amount:
  "fst (create_range_proof sha256 amount g h range_min range_max s) = Inl TypeError"
  by (simp add: create_range_proof_def randbelow_def generate_bulletproof_def
      BULLETPROOF_IMPLEMENTATION_def)

text \<open>
  C2. \<^verbatim>\<open>generate_bulletproof\<close> of the emulation refuses an integer commitment outside
  the range with \<^verbatim>\<open>ValueError\<close> (\<open>generate_bulletproof_out_of_range\<close>). But
  \<^verbatim>\<open>create_range_proof\<close> never compares \<open>amount\<close> with the range: it passes the commitment
  point on, and what happens next is the same for every amount. For the amount
  2000000 and the range \<open>[0, 1000000]\<close> no out-of-range error is raised; the call ends in
  the \<^verbatim>\<open>TypeError\<close> of the range test on a curve point, as it does for the amount 50.
\<close>

theorem create_range_proof_out_of_range_amount:
  "fst (create_range_proof sha256 2000000 g h 0 1000000 s) = Inl TypeError
   \<and> fst (create_range_proof sha256 2000000 g h 0 1000000 s) \<noteq> Inl ValueError
   \<and> fst (create_range_proof sha256 50 g h 0 1000000 s)
       = fst (create_range_proof sha256 2000000 g h 0 1000000 s)"
  by (simp add: create_range_proof_def randbelow_def generate_bulletproof_def
      BULLETPROOF_IMPLEMENTATION_def)

lemma verify_bulletproof_true_iff:
  "verify_bulletproof sha256 (CInt c) proof range_min range_max = Inr True \<longleftrightarrow>
     range_min \<le> c \<and> c \<le> range_max \<and>
     proof = compute_challenge sha256
        (str_int c @ ''-'' @ str_int range_min @ ''-'' @ str_int range_max @ ''-valid'') 256"
  by (auto simp: verify_bulletproof_def emu_verify_bulletproof_def
      BULLETPROOF_IMPLEMENTATION_def check_range_def)

lemma verify_bulletproof_other_proof:
  "generate_bulletproof sha256 c range_min range_max = Inr proof \<Longrightarrow> proof' \<noteq> proof \<Longrightarrow>
     verify_bulletproof sha256 c proof' range_min range_max = Inr False"
  by (auto simp: verify_bulletproof_def generate_bulletproof_def emu_verify_bulletproof_def
      BULLETPROOF_IMPLEMENTATION_def split: if_splits)

text \<open>
  C3. The proof generated for the commitment 100 and the range \<open>[0, 100]\<close> is the
  challenge of the transcript \<^verbatim>\<open>100-0-100-valid\<close>. Checked against \<open>[0, 99]\<close>,
  \<^verbatim>\<open>verify_bulletproof\<close> does not return \<open>False\<close>: it regenerates the proof, and
  the generation raises \<^verbatim>\<open>ValueError\<close> because 100 lies outside \<open>[0, 99]\<close>.
\<close>

theorem verify_bulletproof_raises_on_narrower_range:
  "generate_bulletproof sha256 (CInt 100) 0 100
     = Inr (compute_challenge sha256 ''100-0-100-valid'' 256)
   \<and> verify_bulletproof sha256 (CInt 100)
        (compute_challenge sha256 ''100-0-100-valid'' 256) 0 99 = Inl ValueError"
  by (simp add: verify_bulletproof_def generate_bulletproof_def emu_verify_bulletproof_def
      BULLETPROOF_IMPLEMENTATION_def check_range_def str_int_100 str_int_0)

section \<open>Properties of the signature check\<close>

lemma bytes_fromhex_zz: "bytes_fromhex ''zz'' = Inl ValueError"
  by (simp add: is_space_def hexval_def)

lemma bytes_fromhex_error: "bytes_fromhex s = Inl e \<Longrightarrow> e = ValueError"
  by (induction s arbitrary: e rule: bytes_fromhex.induct)
     (auto split: if_splits option.splits sum.splits)

lemma verify_signature_malformed_hex:
  "bytes_fromhex signature = Inl ValueError \<Longrightarrow>
     \<exists>e. verify_signature from_string message_digest verify tx public_key signature = Inl e"
  by (simp add: verify_signature_def except_BadSignatureError_def split: sum.splits)

lemma verify_signature_bad_signature:
  "bytes_fromhex public_key = Inr kb \<Longrightarrow> from_string kb = Inr k \<Longrightarrow>
   message_digest tx = Inr m \<Longrightarrow> bytes_fromhex signature = Inr sb \<Longrightarrow>
   verify k sb m = Inl BadSignatureError \<Longrightarrow>
     verify_signature from_string message_digest verify tx public_key signature = Inr False"
  by (simp add: verify_signature_def except_BadSignatureError_def)

text \<open>
  C5. For the signature string \<^verbatim>\<open>zz\<close>, which is not hexadecimal, \<^verbatim>\<open>verify_signature\<close>
  raises, whatever the transaction, the public key and the library functions are:
  \<^verbatim>\<open>bytes.fromhex\<close> raises \<^verbatim>\<open>ValueError\<close>, which the handler for \<^verbatim>\<open>BadSignatureError\<close>
  lets through (and an exception of an earlier step is not caught either). With a
  public key that parses and a digest that is computed, the exception is that
  \<^verbatim>\<open>ValueError\<close>.
\<close>

theorem verify_signature_raises_on_non_hex:
  "(\<exists>e. verify_signature from_string message_digest verify tx public_key ''zz'' = Inl e)
   \<and> verify_signature (\<lambda>b. Inr b) (\<lambda>t. Inr []) verify tx ''04'' ''zz'' = Inl ValueError"
  by (simp add: verify_signature_def except_BadSignatureError_def bytes_fromhex_zz
      is_space_def hexval_def split: sum.splits)

section \<open>Properties of the ledger\<close>

lemma map_of_db_put_same: "map_of (db_put k v env) k = Some v"
  by (induction env) auto

lemma map_of_db_put_other: "k' \<noteq> k \<Longrightarrow> map_of (db_put k v env) k' = map_of env k'"
  by (induction env) auto

lemma db_put_twice: "db_put k v (db_put k v env) = db_put k v env"
  by (induction env) auto

lemma save_transaction_no_family:
  "map_of tx ''TX_FAMILY'' = None \<Longrightarrow> save_transaction L env tx = Inl KeyError"
  by (simp add: save_transaction_def)

lemma save_transaction_succeeds:
  "map_of tx ''TX_FAMILY'' = Some family \<Longrightarrow> \<exists>env'. save_transaction L env tx = Inr env'"
  by (simp add: save_transaction_def)

text \<open>
  C4, as stated, fails: no save to an existing key is rejected. After a first
  successful save of a transaction, the second save of the same transaction succeeds
  too.
\<close>

theorem save_transaction_duplicate_counterexample:
  "\<not> (\<forall>L env tx env'. save_transaction L env tx = Inr env' \<longrightarrow>
         (\<exists>e. save_transaction L env' tx = Inl e))"
proof
  assume rejects: "\<forall>L env tx env'. save_transaction L env tx = Inr env' \<longrightarrow>
         (\<exists>e. save_transaction L env' tx = Inl e)"
  define L :: pylib where
    "L = \<lparr>json_dumps = (\<lambda>b v. ''{}''), sha256_hexdigest = (\<lambda>s. ''00''),
          py_repr = (\<lambda>v. ''''), fromisoformat = (\<lambda>s. Inl ValueError)\<rparr>"
  define tx :: dict where "tx = [(''TX_FAMILY'', PStr ''financial_tx'')]"
  have first: "save_transaction L [] tx = Inr [(''financial_tx_00'', tx)]"
    by (simp add: save_transaction_def generate_tx_id_def L_def tx_def)
  have second: "save_transaction L [(''financial_tx_00'', tx)] tx = Inr [(''financial_tx_00'', tx)]"
    by (simp add: save_transaction_def generate_tx_id_def L_def tx_def)
  from rejects first have "\<exists>e. save_transaction L [(''financial_tx_00'', tx)] tx = Inl e"
    by blast
  with second show False
    by simp
qed

text \<open>
  C4, amended. \<^verbatim>\<open>save_transaction\<close> writes with \<^verbatim>\<open>put\<close>, which replaces. After a successful
  save the entry under the transaction's family and identifier is the transaction
  saved, whatever the store held under that key before, and saving the same
  transaction again succeeds and leaves the store as it is. There is no duplicate
  error.
\<close>

theorem save_transaction_overwrites:
  assumes "save_transaction L env tx = Inr env'"
  shows "save_transaction L env' tx = Inr env'
         \<and> (\<exists>family. map_of tx ''TX_FAMILY'' = Some family
              \<and> get_transaction env' (generate_tx_id L tx) (format_value L family) = Some tx)"
  using assms
  by (auto simp: save_transaction_def get_transaction_def db_get_def map_of_db_put_same
      db_put_twice split: option.splits)

theorem save_transaction_overwrites_witness:
  "save_transaction
     \<lparr>json_dumps = (\<lambda>b v. ''{}''), sha256_hexdigest = (\<lambda>s. ''00''),
      py_repr = (\<lambda>v. ''''), fromisoformat = (\<lambda>s. Inl ValueError)\<rparr>
     [(''financial_tx_00'', [(''TX_FAMILY'', PStr ''financial_tx''), (''amount'', PInt 1)])]
     [(''amount'', PInt 1), (''TX_FAMILY'', PStr ''financial_tx'')]
   = Inr [(''financial_tx_00'', [(''amount'', PInt 1), (''TX_FAMILY'', PStr ''financial_tx'')])]
   \<and> save_transaction
     \<lparr>json_dumps = (\<lambda>b v. ''{}''), sha256_hexdigest = (\<lambda>s. ''00''),
      py_repr = (\<lambda>v. ''''), fromisoformat = (\<lambda>s. Inl ValueError)\<rparr>
     [(''financial_tx_00'', [(''amount'', PInt 1), (''TX_FAMILY'', PStr ''financial_tx'')])]
     [(''amount'', PInt 1), (''TX_FAMILY'', PStr ''financial_tx'')]
   = Inr [(''financial_tx_00'', [(''amount'', PInt 1), (''TX_FAMILY'', PStr ''financial_tx'')])]"
proof -
  let ?L = "\<lparr>json_dumps = (\<lambda>b v. ''{}''), sha256_hexdigest = (\<lambda>s. ''00''),
      py_repr = (\<lambda>v. ''''), fromisoformat = (\<lambda>s. Inl ValueError)\<rparr>"
  let ?old = "[(''TX_FAMILY'', PStr ''financial_tx''), (''amount'', PInt 1)]"
  let ?tx = "[(''amount'', PInt 1), (''TX_FAMILY'', PStr ''financial_tx'')]"
  have first: "save_transaction ?L [(''financial_tx_00'', ?old)] ?tx
                 = Inr [(''financial_tx_00'', ?tx)]"
    by (simp add: save_transaction_def generate_tx_id_def)
  from save_transaction_overwrites [OF first] first show ?thesis
    by simp
qed

lemma get_balance_two_parties:
  "sender \<noteq> recipient \<Longrightarrow>
   save_transaction L [] [(''TX_FAMILY'', PStr ''financial_tx''), (''sender'', PStr sender),
       (''recipient'', PStr recipient), (''amount'', PInt 100)] = Inr env \<Longrightarrow>
   get_balance env recipient ''financial_tx'' = Inr (PInt 100)
   \<and> get_balance env sender ''financial_tx'' = Inr (PInt (- 100))"
  by (auto simp: save_transaction_def get_balance_def)

text \<open>
  C9. A stored transfer whose sender and recipient are the same address A adds its
  amount to the balance of A and never subtracts it: the \<^verbatim>\<open>elif\<close> skips the sender
  test once the recipient test has succeeded. With the one transaction of amount 100
  from A to A in the store, \<^verbatim>\<open>get_balance\<close> returns 100; the sum of \<open>+amount\<close> for the
  records received and \<open>-amount\<close> for the records sent is 0.
\<close>

theorem get_balance_self_transfer:
  "\<exists>env. save_transaction L [] [(''TX_FAMILY'', PStr ''financial_tx''), (''sender'', PStr ''A''),
             (''recipient'', PStr ''A''), (''amount'', PInt 100)] = Inr env
         \<and> get_balance env ''A'' ''financial_tx'' = Inr (PInt 100)"
  by (simp add: save_transaction_def get_balance_def)

lemma get_balance_nested_header:
  "get_balance [(''financial_tx_00'', [(''tx_id'', PStr ''00''),
       (''header'', PDict [(''sender'', PStr ''S''), (''recipient'', PStr ''R''),
                           (''amount'', PInt 100)])])] ''R'' ''financial_tx''
     = Inl KeyError"
  by (simp add: get_balance_def)

text \<open>
  The transaction flow cannot store what it creates: the body it builds has the key
  \<^verbatim>\<open>tx_family\<close> where \<^verbatim>\<open>save_transaction\<close> reads \<^verbatim>\<open>TX_FAMILY\<close>, so the call raises
  (\<^verbatim>\<open>KeyError\<close>, unless an earlier step has raised) and the ledger is not written.
  The body also keeps sender, recipient and amount inside \<^verbatim>\<open>header\<close>, where
  \<^verbatim>\<open>get_balance\<close> does not look (\<open>get_balance_nested_header\<close>).
\<close>

lemma create_and_encrypt_transaction_raises:
  "\<exists>e. create_and_encrypt_transaction F L ledger timestamp tx_family sender recipient amount
          private_key anchor = Inl e"
  by (simp add: create_and_encrypt_transaction_def Let_def save_transaction_def
      split: sum.splits)

lemma create_and_encrypt_transaction_KeyError:
  "encrypt_transaction_amount F amount recipient = Inr c \<Longrightarrow>
   create_pedersen_commitment F amount private_key = Inr p \<Longrightarrow>
   (\<And>body. \<exists>sg. sign_transaction F body private_key = Inr sg) \<Longrightarrow>
     create_and_encrypt_transaction F L ledger timestamp tx_family sender recipient amount
          private_key anchor = Inl KeyError"
proof -
  assume enc: "encrypt_transaction_amount F amount recipient = Inr c"
    and com: "create_pedersen_commitment F amount private_key = Inr p"
    and sig: "\<And>body. \<exists>sg. sign_transaction F body private_key = Inr sg"
  let ?header = "[(''sender'', PStr sender), (''recipient'', PStr recipient),
                    (''timestamp'', PStr timestamp), (''amount'', PInt amount)]"
  let ?body = "[(''tx_id'', PStr (sha256_hexdigest L (json_dumps L True (PDict ?header)))),
                (''header'', PDict ?header), (''encrypted_amount'', c), (''commitment'', p),
                (''tx_family'', PStr tx_family)]"
  from sig obtain sg where sg: "sign_transaction F ?body private_key = Inr sg"
    by blast
  show ?thesis
    by (simp add: create_and_encrypt_transaction_def Let_def enc com sg save_transaction_def)
qed

section \<open>Properties of the notary store\<close>


lemma map_of_db_delete_other: "k' \<noteq> k \<Longrightarrow> map_of (snd (db_delete k env)) k' = map_of env k'"
  by (induction env) (auto simp: db_delete_def)






lemma aware_expiry_reads_raise:
  "get_notary_record
     \<lparr>json_dumps = (\<lambda>b v. ''{}''), sha256_hexdigest = (\<lambda>s. ''00''), py_repr = (\<lambda>v. ''''),
      fromisoformat = (\<lambda>s. if s = ''2024-01-01T00:00:00+00:00''
                            then Inr (Aware 1704067200000000) else Inl ValueError)\<rparr>
     [(''notary_abc'', [(''content'', PStr ''deed''),
                        (''expires_at'', PStr ''2024-01-01T00:00:00+00:00'')])]
     1704153600000000 ''abc''
   = Inl TypeError
   \<and> list_notary_records
     \<lparr>json_dumps = (\<lambda>b v. ''{}''), sha256_hexdigest = (\<lambda>s. ''00''), py_repr = (\<lambda>v. ''''),
      fromisoformat = (\<lambda>s. if s = ''2024-01-01T00:00:00+00:00''
                            then Inr (Aware 1704067200000000) else Inl ValueError)\<rparr>
     [(''notary_abc'', [(''content'', PStr ''deed''),
                        (''expires_at'', PStr ''2024-01-01T00:00:00+00:00'')])]
     1704153600000000 False
   = Inl TypeError"
  by (simp add: get_notary_record_def list_notary_records_def db_get_def
      datetime_fromisoformat_def utcnow_after_def)




section \<open>Properties of the cancellation\<close>

lemma map_of_update_anchored:
  "map_of (AList.update ''anchored'' v tx) ''anchored'' = Some v"
  by (simp add: update_conv')

lemma update_not_empty: "AList.update k v tx \<noteq> []"
  by (cases tx) auto

lemma dict_key_int_float: "dict_key (PFloat 7) = dict_key (PInt 7)"
  by (simp add: dict_key_def)

lemma anchor_transaction_stores:
  assumes "anchor_transaction st t0 tx = Inr st'" and "map_of tx ''tx_id'' = Some tx_id"
  shows "hashable tx_id"
    and "notary_storage st' (dict_key tx_id) = Some (AList.update ''anchored'' (PFloat t0) tx)"
    and "cancellation_window st' = cancellation_window st"
  using assms by (auto simp: anchor_transaction_def Let_def split: if_splits)

lemma cancel_transaction_unknown:
  "hashable k \<Longrightarrow> notary_storage st (dict_key k) = None \<Longrightarrow>
     cancel_transaction fl st now k = Inr (False, st)"
  by (simp add: cancel_transaction_def)

lemma cancel_transaction_after_anchor:
  assumes "anchor_transaction st t0 tx = Inr st'" and "map_of tx ''tx_id'' = Some tx_id"
  shows "cancel_transaction fl st' t tx_id =
           (if fl (t - t0) > cancellation_window st then Inr (False, st')
            else Inr (True, st'\<lparr>notary_storage :=
                                  (notary_storage st')(dict_key tx_id := None)\<rparr>))"
  using anchor_transaction_stores [OF assms]
  by (simp add: cancel_transaction_def map_of_update_anchored update_not_empty float_sub_def)

text \<open>
  C6, as stated, fails: a cancellation after the window does not fail with an error.
  For the transaction anchored at time 1000 with the window of 120 seconds, the call
  at time 1121 raises nothing, whatever the rounding of the subtraction is, and where
  the difference 121 is computed exactly it returns \<open>False\<close> and leaves the emulator
  as it is.
\<close>

theorem cancel_transaction_late_counterexample:
  "\<not> (\<exists>fl e. cancel_transaction fl
               (projr (anchor_transaction init_emulator 1000 [(''tx_id'', PStr ''ab12'')]))
               1121 (PStr ''ab12'') = Inl e)
   \<and> \<not> (\<exists>fl. fl 121 = 121
           \<and> cancel_transaction fl
               (projr (anchor_transaction init_emulator 1000 [(''tx_id'', PStr ''ab12'')]))
               1121 (PStr ''ab12'')
             \<noteq> Inr (False,
                   projr (anchor_transaction init_emulator 1000 [(''tx_id'', PStr ''ab12'')])))"
proof -
  let ?tx = "[(''tx_id'', PStr ''ab12'')]"
  obtain st' where anchored: "anchor_transaction init_emulator 1000 ?tx = Inr st'"
    by (simp add: anchor_transaction_def hashable_def)
  have id: "map_of ?tx ''tx_id'' = Some (PStr ''ab12'')"
    by simp
  have window: "cancellation_window init_emulator = 120"
    by (simp add: init_emulator_def)
  have result: "cancel_transaction fl st' 1121 (PStr ''ab12'') =
           (if fl 121 > 120 then Inr (False, st')
            else Inr (True, st'\<lparr>notary_storage :=
                                  (notary_storage st')(dict_key (PStr ''ab12'') := None)\<rparr>))"
    for fl
    using cancel_transaction_after_anchor [OF anchored id, of fl 1121]
    by (simp add: window)
  have "\<not> (\<exists>fl e. cancel_transaction fl st' 1121 (PStr ''ab12'') = Inl e)"
    by (simp add: result)
  moreover have "\<not> (\<exists>fl. fl 121 = 121
           \<and> cancel_transaction fl st' 1121 (PStr ''ab12'') \<noteq> Inr (False, st'))"
    by (auto simp: result)
  ultimately show ?thesis
    by (simp add: anchored)
qed

text \<open>
  C6, amended. For a transaction anchored at time \<open>t0\<close>, \<^verbatim>\<open>cancel_transaction\<close> of the
  emulator at time \<open>t\<close> tests the difference \<open>t - t0\<close> as the double subtraction
  computes it, \<open>fl (t - t0)\<close>: the exact difference where that is a double, as it is
  for clock values a whole number of seconds apart. If it is at most the cancellation
  window \<open>W\<close> the call returns \<open>True\<close> and the anchor is gone from the notary storage. If
  it is greater than \<open>W\<close> the call returns \<open>False\<close> and the storage is unchanged: no
  error is raised, and \<open>False\<close> is also what the call returns for an identifier that
  was never anchored. \<^verbatim>\<open>TransactionFlow.cancel_transaction\<close> returns what the
  \<^verbatim>\<open>cancel_anchor\<close> of its anchor object returns.
\<close>

theorem cancel_transaction_window:
  assumes "anchor_transaction st t0 tx = Inr st'" and "map_of tx ''tx_id'' = Some tx_id"
  shows "(fl (t - t0) \<le> cancellation_window st \<longrightarrow>
            cancel_transaction fl st' t tx_id
              = Inr (True, st'\<lparr>notary_storage :=
                                 (notary_storage st')(dict_key tx_id := None)\<rparr>))
         \<and> (fl (t - t0) > cancellation_window st \<longrightarrow>
              cancel_transaction fl st' t tx_id = Inr (False, st'))
         \<and> (\<forall>e. cancel_transaction fl st' t tx_id \<noteq> Inl e)
         \<and> (\<forall>k. hashable k \<longrightarrow> notary_storage st' (dict_key k) = None \<longrightarrow>
                cancel_transaction fl st' t k = Inr (False, st'))
         \<and> flow_cancel_transaction cancel_anchor anchor flow_tx_id
              = cancel_anchor anchor flow_tx_id"
  using cancel_transaction_after_anchor [OF assms, of fl t]
  by (simp add: cancel_transaction_unknown flow_cancel_transaction_def)

theorem cancel_transaction_window_witness:
  "(\<exists>st'. anchor_transaction init_emulator 1000 [(''tx_id'', PStr ''ab12'')] = Inr st'
      \<and> cancel_transaction (\<lambda>x. x) st' 1119 (PStr ''ab12'')
          = Inr (True, st'\<lparr>notary_storage := (notary_storage st')(PStr ''ab12'' := None)\<rparr>)
      \<and> notary_storage (snd (projr (cancel_transaction (\<lambda>x. x) st' 1119 (PStr ''ab12''))))
          (PStr ''ab12'') = None
      \<and> cancel_transaction (\<lambda>x. x) st' 1121 (PStr ''ab12'') = Inr (False, st')
      \<and> cancel_transaction (\<lambda>x. x) st' 1121 (PStr ''cd34'') = Inr (False, st'))"
proof -
  let ?tx = "[(''tx_id'', PStr ''ab12'')]"
  obtain st' where anchored: "anchor_transaction init_emulator 1000 ?tx = Inr st'"
    by (simp add: anchor_transaction_def hashable_def)
  have id: "map_of ?tx ''tx_id'' = Some (PStr ''ab12'')"
    by simp
  have window: "cancellation_window init_emulator = 120"
    by (simp add: init_emulator_def)
  have early: "(1119::real) - 1000 \<le> 120" and late: "(1121::real) - 1000 > 120"
    by simp_all
  have key: "dict_key (PStr ''ab12'') = PStr ''ab12''"
    by (simp add: dict_key_def)
  have other: "hashable (PStr ''cd34'')" "notary_storage st' (dict_key (PStr ''cd34'')) = None"
    using anchored
    by (auto simp: hashable_def anchor_transaction_def dict_key_def init_emulator_def)
  note at_1119 = cancel_transaction_window [OF anchored id, where fl = "\<lambda>x. x" and t = 1119
      and cancel_anchor = "\<lambda>(a::unit) (i::unit). True" and anchor = "()" and flow_tx_id = "()"]
  note at_1121 = cancel_transaction_window [OF anchored id, where fl = "\<lambda>x. x" and t = 1121
      and cancel_anchor = "\<lambda>(a::unit) (i::unit). True" and anchor = "()" and flow_tx_id = "()"]
  from at_1119 at_1121 early late window anchored key other
  show ?thesis
    by auto
qed

section \<open>Properties of the compliance check\<close>

lemma check_compliance_status:
  "check_compliance P L cv blacklist_db whitelist_db address_set = Inr report \<Longrightarrow>
     compliance_status report
       = (if blacklist_matches report = [] then ''Compliant'' else ''Non-compliant'')"
  by (auto simp: check_compliance_def split: sum.splits)

lemma verify_transaction_blacklist_match:
  "check_compliance P L cv blacklist_db whitelist_db [sender, recipient] = Inr report \<Longrightarrow>
   map_of tx ''sender'' = Some sender \<Longrightarrow> map_of tx ''recipient'' = Some recipient \<Longrightarrow>
     verify_transaction P L cv blacklist_db whitelist_db tx
       = Inr (blacklist_matches report = [])"
  using check_compliance_status [of P L cv blacklist_db whitelist_db "[sender, recipient]" report]
  by (simp add: verify_transaction_def)

lemma paillier_blacklist_hit:
  "py_equals P (PStr ''B'') c \<Longrightarrow> paillier_encrypt P (PStr ''B'') = Inr c \<Longrightarrow>
     verify_transaction P L \<lparr>scheme = Paillier, compliance_level = COMPLIANCE_LEVEL_BASIC\<rparr>
       [(''k1'', PStr ''B'')] [] [(''sender'', PStr ''A''), (''recipient'', PStr ''B'')]
     = Inr False"
  by (simp add: verify_transaction_def check_compliance_def encrypt_set_def load_list_def
      compute_intersection_def)

lemma schnorr_unpack_raises:
  "length sender \<noteq> 2 \<Longrightarrow>
   encrypt_set P L Schnorr (load_list blacklist_db) = Inr blacklist \<Longrightarrow>
   encrypt_set P L Schnorr (load_list whitelist_db) = Inr whitelist \<Longrightarrow>
     verify_transaction P L \<lparr>scheme = Schnorr, compliance_level = level\<rparr>
       blacklist_db whitelist_db [(''sender'', PStr sender), (''recipient'', PStr recipient)]
     = Inl ValueError"
proof -
  assume len: "length sender \<noteq> 2"
    and bl: "encrypt_set P L Schnorr (load_list blacklist_db) = Inr blacklist"
    and wl: "encrypt_set P L Schnorr (load_list whitelist_db) = Inr whitelist"
  from len have "unpack2 (PStr sender) = Inl ValueError"
    by (cases "(PStr sender)" rule: unpack2.cases) auto
  then have "compute_intersection P L Schnorr [PStr sender, PStr recipient] blacklist
               = Inl ValueError"
    by (simp add: compute_intersection_def verify_item_def)
  then show ?thesis
    by (simp add: verify_transaction_def check_compliance_def bl wl)
qed

text \<open>
  C8. At the advanced compliance level the whitelist plays no part in the verdict:
  \<^verbatim>\<open>check_compliance\<close> computes the whitelist matches and reports them, and the status
  is decided by the blacklist matches alone (\<open>check_compliance_status\<close>). With an empty
  blacklist and an empty whitelist, the transaction from A to B, neither of them
  whitelisted, is reported compliant.
\<close>

theorem verify_transaction_ignores_whitelist:
  "verify_transaction P L \<lparr>scheme = Paillier, compliance_level = COMPLIANCE_LEVEL_ADVANCED\<rparr>
     [] [] [(''sender'', PStr ''A''), (''recipient'', PStr ''B'')] = Inr True"
  by (simp add: verify_transaction_def check_compliance_def encrypt_set_def load_list_def
      compute_intersection_def)

end
